theory Spec2Isabelle
  imports Complex_Main "HOL-Library.Monad_Syntax"
begin

section \<open>JavaScript values\<close>

text \<open>
  The lookup route reads whatever \<^verbatim>\<open>response.json()\<close> delivers, so the payload is modelled
  as an untyped JavaScript value. Numbers are exact real numbers extended by \<open>NaN\<close> and the two
  infinities: the rounding of IEEE doubles, overflow and the sign of zero are not modelled.
  Strings are the UTF-8 bytes of the text.
\<close>

datatype jsnum = Finite real | NaN | PosInfinity | NegInfinity

datatype jsval =
    JUndefined
  | JNull
  | JBool bool
  | JNum jsnum
  | JStr string
  | JArr "jsval list"
  | JObj "(string \<times> jsval) list"

text \<open>
  \<open>JObj kvs\<close> lists the own properties of an object. \<open>get_prop k v\<close> is the member access
  \<^verbatim>\<open>v.k\<close> for the property names the route reads (none of them is inherited from a
  prototype); \<open>None\<close> is the \<^verbatim>\<open>TypeError\<close> of reading a property of \<^verbatim>\<open>undefined\<close> or
  \<^verbatim>\<open>null\<close>.
\<close>

definition lookup_own :: "string \<Rightarrow> (string \<times> jsval) list \<Rightarrow> jsval" where
  "lookup_own k kvs = (case map_of kvs k of None \<Rightarrow> JUndefined | Some x \<Rightarrow> x)"

fun get_prop :: "string \<Rightarrow> jsval \<Rightarrow> jsval option" where
  "get_prop k JUndefined = None"
| "get_prop k JNull = None"
| "get_prop k (JObj kvs) = Some (lookup_own k kvs)"
| "get_prop k v = Some JUndefined"

text \<open>
  The first character of a string: the bytes of its first UTF-8 sequence. (For a
  character outside the basic plane JavaScript yields a lone surrogate instead; the route
  never looks at the content of such a character.)
\<close>

definition first_char :: "string \<Rightarrow> string" where
  "first_char s =
     (case s of [] \<Rightarrow> []
      | c # cs \<Rightarrow>
          (let b = (of_char c :: nat)
           in take (if b < 0xC0 then 1 else if b < 0xE0 then 2 else if b < 0xF0 then 3 else 4) s))"

text \<open>\<open>idx0 v\<close> is \<^verbatim>\<open>v[0]\<close>.\<close>

fun idx0 :: "jsval \<Rightarrow> jsval option" where
  "idx0 JUndefined = None"
| "idx0 JNull = None"
| "idx0 (JArr xs) = Some (case xs of [] \<Rightarrow> JUndefined | x # _ \<Rightarrow> x)"
| "idx0 (JStr s) = Some (if s = [] then JUndefined else JStr (first_char s))"
| "idx0 (JObj kvs) = Some (lookup_own ''0'' kvs)"
| "idx0 v = Some JUndefined"

text \<open>Optional chaining: \<^verbatim>\<open>v?.k\<close> and \<^verbatim>\<open>v?.[0]\<close> never throw.\<close>

definition opt_prop :: "string \<Rightarrow> jsval \<Rightarrow> jsval" where
  "opt_prop k v = (case get_prop k v of None \<Rightarrow> JUndefined | Some x \<Rightarrow> x)"

definition opt_idx0 :: "jsval \<Rightarrow> jsval" where
  "opt_idx0 v = (case idx0 v of None \<Rightarrow> JUndefined | Some x \<Rightarrow> x)"

text \<open>Truthiness, and the operator \<^verbatim>\<open>a || b\<close>.\<close>

fun truthy :: "jsval \<Rightarrow> bool" where
  "truthy JUndefined = False"
| "truthy JNull = False"
| "truthy (JBool b) = b"
| "truthy (JNum n) = (n \<noteq> NaN \<and> n \<noteq> Finite 0)"
| "truthy (JStr s) = (s \<noteq> [])"
| "truthy (JArr xs) = True"
| "truthy (JObj kvs) = True"

definition js_or :: "jsval \<Rightarrow> jsval \<Rightarrow> jsval" where
  "js_or a b = (if truthy a then a else b)"

subsection \<open>Numeric strings\<close>

definition isDigit :: "char \<Rightarrow> bool" where
  "isDigit c = (48 \<le> (of_char c :: nat) \<and> (of_char c :: nat) \<le> 57)"

definition digits_val :: "string \<Rightarrow> nat" where
  "digits_val ds = foldl (\<lambda>a c. 10 * a + ((of_char c :: nat) - 48)) 0 ds"

text \<open>
  \<open>ws_len s\<close> is the number of bytes of the white space or line terminator character at
  the head of \<open>s\<close>, and 0 when \<open>s\<close> starts with none: TAB, LF, VT, FF, CR, SP, and in UTF-8
  U+00A0, U+1680, U+2000 to U+200A, U+2028, U+2029, U+202F, U+205F, U+3000, U+FEFF.
\<close>

definition ws_len :: "string \<Rightarrow> nat" where
  "ws_len s =
     (let b = (map of_char s :: nat list)
      in if take 1 b \<in> set [[9], [10], [11], [12], [13], [32]] then 1
         else if take 2 b = [0xC2, 0xA0] then 2
         else if take 3 b \<in> set [[0xE1, 0x9A, 0x80], [0xE2, 0x80, 0xA8], [0xE2, 0x80, 0xA9],
                   [0xE2, 0x80, 0xAF], [0xE2, 0x81, 0x9F], [0xE3, 0x80, 0x80], [0xEF, 0xBB, 0xBF]]
               \<or> (take 2 b = [0xE2, 0x80] \<and> 3 \<le> length b \<and> 0x80 \<le> b ! 2 \<and> b ! 2 \<le> 0x8A)
         then 3
         else 0)"

function dropWs :: "string \<Rightarrow> string" where
  "dropWs s = (if ws_len s = 0 then s else dropWs (drop (ws_len s) s))"
  by pat_completeness auto
termination
proof (relation "measure length")
  show "wf (measure length)" by simp
next
  fix s :: string
  assume "ws_len s \<noteq> 0"
  then have "s \<noteq> []" by (auto simp: ws_len_def)
  with \<open>ws_len s \<noteq> 0\<close> show "(drop (ws_len s) s, s) \<in> measure length" by simp
qed

declare dropWs.simps [simp del]

text \<open>
  \<open>scanExponent r\<close> reads an exponent part at the head of \<open>r\<close>: the exponent and the rest,
  or 0 and \<open>r\<close> itself when there is none.
\<close>

definition scanExponent :: "string \<Rightarrow> int \<times> string" where
  "scanExponent r =
     (case r of [] \<Rightarrow> (0, r)
      | c # r1 \<Rightarrow>
          if c = CHR ''e'' \<or> c = CHR ''E'' then
            (let neg = (r1 \<noteq> [] \<and> hd r1 = CHR ''-'');
                 r2 = (if r1 \<noteq> [] \<and> (hd r1 = CHR ''-'' \<or> hd r1 = CHR ''+'') then tl r1 else r1);
                 ds = takeWhile isDigit r2
             in if ds = [] then (0, r)
                else ((if neg then - int (digits_val ds) else int (digits_val ds)),
                      dropWhile isDigit r2))
          else (0, r))"

text \<open>
  \<open>scanDecimal s\<close> reads the longest prefix of \<open>s\<close> that is an unsigned decimal literal
  (digits, an optional fraction, an optional exponent; not \<^verbatim>\<open>Infinity\<close>) and returns its
  value and the rest, or \<open>None\<close> when no prefix is one.
\<close>

definition scanDecimal :: "string \<Rightarrow> (real \<times> string) option" where
  "scanDecimal s =
     (let ip = takeWhile isDigit s;
          r1 = dropWhile isDigit s;
          dot = (r1 \<noteq> [] \<and> hd r1 = CHR ''.'');
          fp = (if dot then takeWhile isDigit (tl r1) else []);
          r2 = (if dot then dropWhile isDigit (tl r1) else r1)
      in if ip = [] \<and> fp = [] then None
         else
           (let m = (of_nat (digits_val ip) + of_nat (digits_val fp) / 10 ^ length fp :: real);
                ex = scanExponent r2;
                e = fst ex
            in Some (if 0 \<le> e then m * 10 ^ nat e else m / 10 ^ nat (- e), snd ex)))"

definition scanSign :: "string \<Rightarrow> bool \<times> string" where
  "scanSign t =
     (case t of [] \<Rightarrow> (False, t)
      | c # r \<Rightarrow> if c = CHR ''-'' then (True, r) else if c = CHR ''+'' then (False, r) else (False, t))"

text \<open>\<^verbatim>\<open>parseFloat\<close> on a string: leading white space is skipped, trailing text ignored.\<close>

definition parseFloatStr :: "string \<Rightarrow> jsnum" where
  "parseFloatStr s =
     (let sg = scanSign (dropWs s); neg = fst sg; u = snd sg
      in if take 8 u = ''Infinity'' then (if neg then NegInfinity else PosInfinity)
         else (case scanDecimal u of
                 None \<Rightarrow> NaN
               | Some (q, r) \<Rightarrow> Finite (if neg then - q else q)))"

text \<open>Literals in another radix: \<^verbatim>\<open>0x\<close>, \<^verbatim>\<open>0o\<close>, \<^verbatim>\<open>0b\<close>.\<close>

definition radix_digit :: "char \<Rightarrow> nat option" where
  "radix_digit c =
     (let b = (of_char c :: nat)
      in if 48 \<le> b \<and> b \<le> 57 then Some (b - 48)
         else if 65 \<le> b \<and> b \<le> 70 then Some (b - 55)
         else if 97 \<le> b \<and> b \<le> 102 then Some (b - 87)
         else None)"

definition isRadixDigit :: "nat \<Rightarrow> char \<Rightarrow> bool" where
  "isRadixDigit base c = (case radix_digit c of None \<Rightarrow> False | Some d \<Rightarrow> d < base)"

definition radix_val :: "nat \<Rightarrow> string \<Rightarrow> nat" where
  "radix_val base ds = foldl (\<lambda>a c. base * a + (case radix_digit c of None \<Rightarrow> 0 | Some d \<Rightarrow> d)) 0 ds"

definition radix_of_prefix :: "string \<Rightarrow> nat option" where
  "radix_of_prefix t =
     (if take 2 t = ''0x'' \<or> take 2 t = ''0X'' then Some 16
      else if take 2 t = ''0o'' \<or> take 2 t = ''0O'' then Some 8
      else if take 2 t = ''0b'' \<or> take 2 t = ''0B'' then Some 2
      else None)"

text \<open>
  The conversion of a string to a number (\<^verbatim>\<open>Number(s)\<close>): the whole string, white space
  at both ends apart, has to be a numeric literal; the empty string is 0.
\<close>

definition StringToNumber :: "string \<Rightarrow> jsnum" where
  "StringToNumber s =
     (let t = dropWs s
      in if t = [] then Finite 0
         else (case radix_of_prefix t of
                 Some base \<Rightarrow>
                   (let ds = takeWhile (isRadixDigit base) (drop 2 t);
                        r = dropWhile (isRadixDigit base) (drop 2 t)
                    in if ds \<noteq> [] \<and> dropWs r = [] then Finite (of_nat (radix_val base ds)) else NaN)
               | None \<Rightarrow>
                   (let sg = scanSign t; neg = fst sg; u = snd sg
                    in if take 8 u = ''Infinity'' then
                         (if dropWs (drop 8 u) = [] then (if neg then NegInfinity else PosInfinity)
                          else NaN)
                       else (case scanDecimal u of
                               None \<Rightarrow> NaN
                             | Some (q, r) \<Rightarrow>
                                 if dropWs r = [] then Finite (if neg then - q else q) else NaN))))"

subsection \<open>Conversions and arithmetic\<close>

text \<open>
  \<open>ToNumber\<close> is the conversion that \<^verbatim>\<open>Math.round\<close> and the arithmetic operators apply
  to an operand. An array is first turned into the comma-separated string of its elements
  (\<^verbatim>\<open>undefined\<close> and \<^verbatim>\<open>null\<close> as empty strings), so the empty array is 0, an array of
  two or more elements is \<open>NaN\<close> (no numeric literal holds a comma), and an array of one
  element converts as the string of that element; a number printed and read back is
  itself.
\<close>

fun ToNumber :: "jsval \<Rightarrow> jsnum" where
  "ToNumber JUndefined = NaN"
| "ToNumber JNull = Finite 0"
| "ToNumber (JBool b) = Finite (if b then 1 else 0)"
| "ToNumber (JNum n) = n"
| "ToNumber (JStr s) = StringToNumber s"
| "ToNumber (JObj kvs) = NaN"
| "ToNumber (JArr []) = Finite 0"
| "ToNumber (JArr [x]) =
     (case x of JUndefined \<Rightarrow> Finite 0 | JNull \<Rightarrow> Finite 0 | JBool b \<Rightarrow> NaN | _ \<Rightarrow> ToNumber x)"
| "ToNumber (JArr (x # y # zs)) = NaN"

text \<open>
  \<^verbatim>\<open>parseFloat\<close> reads the longest numeric prefix of the string of its argument: a number
  is read back as itself, an array as its first element (the comma ends every prefix),
  and the strings of \<^verbatim>\<open>undefined\<close>, \<^verbatim>\<open>null\<close>, booleans and objects have no numeric
  prefix.
\<close>

fun parseFloat :: "jsval \<Rightarrow> jsnum" where
  "parseFloat (JStr s) = parseFloatStr s"
| "parseFloat (JNum n) = n"
| "parseFloat (JArr (x # xs)) = parseFloat x"
| "parseFloat v = NaN"

text \<open>\<^verbatim>\<open>Math.round\<close>: the nearest integer, a tie going up.\<close>

fun Math_round :: "jsnum \<Rightarrow> jsnum" where
  "Math_round (Finite q) = Finite (of_int \<lfloor>q + 1 / 2\<rfloor>)"
| "Math_round n = n"

text \<open>
  The arithmetic operators with a numeric literal \<open>c\<close> as right operand, on numbers.
\<close>

fun num_mul :: "jsnum \<Rightarrow> real \<Rightarrow> jsnum" where
  "num_mul (Finite a) c = Finite (a * c)"
| "num_mul NaN c = NaN"
| "num_mul PosInfinity c = (if 0 < c then PosInfinity else if c < 0 then NegInfinity else NaN)"
| "num_mul NegInfinity c = (if 0 < c then NegInfinity else if c < 0 then PosInfinity else NaN)"

fun num_div :: "jsnum \<Rightarrow> real \<Rightarrow> jsnum" where
  "num_div (Finite a) c =
     (if c \<noteq> 0 then Finite (a / c)
      else if a = 0 then NaN else if 0 < a then PosInfinity else NegInfinity)"
| "num_div NaN c = NaN"
| "num_div PosInfinity c = (if 0 \<le> c then PosInfinity else NegInfinity)"
| "num_div NegInfinity c = (if 0 \<le> c then NegInfinity else PosInfinity)"

fun num_add :: "jsnum \<Rightarrow> real \<Rightarrow> jsnum" where
  "num_add (Finite a) c = Finite (a + c)"
| "num_add n c = n"

text \<open>\<^verbatim>\<open>v * c\<close> and \<^verbatim>\<open>v - c\<close> convert the left operand to a number.\<close>

definition js_mul :: "jsval \<Rightarrow> real \<Rightarrow> jsnum" where
  "js_mul v c = num_mul (ToNumber v) c"

definition js_sub :: "jsval \<Rightarrow> real \<Rightarrow> jsnum" where
  "js_sub v c = num_add (ToNumber v) (- c)"

subsection \<open>The operator \<^verbatim>\<open>+\<close>\<close>

text \<open>
  \<^verbatim>\<open>v + c\<close> concatenates when \<open>v\<close> is a string, an array or an object, and so needs the
  string of a number. Integers below \<open>10\<^sup>2\<^sup>1\<close> print as their decimal digits; how any other
  number prints depends on the digits of the double, which this model does not have, and
  is the parameter \<open>fmt\<close>.
\<close>

fun nat_digits_aux :: "nat \<Rightarrow> nat \<Rightarrow> string" where
  "nat_digits_aux 0 n = []"
| "nat_digits_aux (Suc k) n =
     (if n < 10 then [char_of (48 + n)]
      else nat_digits_aux k (n div 10) @ [char_of (48 + n mod 10)])"

definition nat_digits :: "nat \<Rightarrow> string" where
  "nat_digits n = nat_digits_aux (Suc n) n"

definition Number_toString :: "(real \<Rightarrow> string) \<Rightarrow> jsnum \<Rightarrow> string" where
  "Number_toString fmt n =
     (case n of
        NaN \<Rightarrow> ''NaN''
      | PosInfinity \<Rightarrow> ''Infinity''
      | NegInfinity \<Rightarrow> ''-Infinity''
      | Finite q \<Rightarrow>
          if of_int \<lfloor>q\<rfloor> = q \<and> \<bar>q\<bar> < 10 ^ 21
          then (if q < 0 then ''-'' else []) @ nat_digits (nat \<bar>\<lfloor>q\<rfloor>\<bar>)
          else fmt q)"

fun join_comma :: "string list \<Rightarrow> string" where
  "join_comma [] = []"
| "join_comma [s] = s"
| "join_comma (s # t # ss) = s @ '','' @ join_comma (t # ss)"

fun ToString :: "(real \<Rightarrow> string) \<Rightarrow> jsval \<Rightarrow> string" where
  "ToString fmt JUndefined = ''undefined''"
| "ToString fmt JNull = ''null''"
| "ToString fmt (JBool b) = (if b then ''true'' else ''false'')"
| "ToString fmt (JNum n) = Number_toString fmt n"
| "ToString fmt (JStr s) = s"
| "ToString fmt (JObj kvs) = ''[object Object]''"
| "ToString fmt (JArr xs) =
     join_comma (map (\<lambda>x. if x = JUndefined \<or> x = JNull then [] else ToString fmt x) xs)"

definition js_plus :: "(real \<Rightarrow> string) \<Rightarrow> jsval \<Rightarrow> real \<Rightarrow> jsval" where
  "js_plus fmt v c =
     (case v of
        JStr s \<Rightarrow> JStr (s @ Number_toString fmt (Finite c))
      | JArr xs \<Rightarrow> JStr (ToString fmt v @ Number_toString fmt (Finite c))
      | JObj kvs \<Rightarrow> JStr (ToString fmt v @ Number_toString fmt (Finite c))
      | _ \<Rightarrow> JNum (num_add (ToNumber v) c))"

subsection \<open>\<^verbatim>\<open>encodeURIComponent\<close>\<close>

definition unreserved :: "char \<Rightarrow> bool" where
  "unreserved c =
     (let b = (of_char c :: nat)
      in (48 \<le> b \<and> b \<le> 57) \<or> (65 \<le> b \<and> b \<le> 90) \<or> (97 \<le> b \<and> b \<le> 122)
         \<or> c \<in> set ''-_.!~*'' \<or> b = 39 \<or> b = 40 \<or> b = 41)"

definition hex_digit :: "nat \<Rightarrow> char" where
  "hex_digit n = ''0123456789ABCDEF'' ! (n mod 16)"

definition percent_encode :: "char \<Rightarrow> string" where
  "percent_encode c =
     (if unreserved c then [c]
      else [CHR ''%'', hex_digit ((of_char c :: nat) div 16), hex_digit (of_char c :: nat)])"

definition encodeURIComponent :: "string \<Rightarrow> string" where
  "encodeURIComponent s = concat (map percent_encode s)"

section \<open>The data model of the route\<close>

text \<open>
  \<^verbatim>\<open>WeatherData\<close>, as the adapters build it. The route declares its fields as numbers and
  strings, but a value read from the payload is stored as it is, so those fields hold any
  JavaScript value; the fields that go through \<^verbatim>\<open>Math.round\<close> are numbers. A template
  literal with one hole is kept as the literal text around the value in the hole.
\<close>

datatype text_t = Value jsval | Template string jsval string

record WeatherMain =
  temp :: jsnum
  feels_like :: jsnum
  humidity :: jsval
  temp_min :: jsnum
  temp_max :: jsnum

record WeatherCondition =
  cond_main :: jsval
  description :: jsval
  icon :: text_t

record WeatherWind =
  speed :: jsnum

record WeatherData =
  name :: jsval
  main :: WeatherMain
  weather :: "WeatherCondition list"
  wind :: WeatherWind

record CacheData =
  data :: WeatherData
  timestamp :: int

type_synonym cache = "string \<rightharpoonup> CacheData"

definition CACHE_DURATION :: int where
  "CACHE_DURATION = 5 * 60 * 1000"

section \<open>The environment of a request\<close>

text \<open>
  What a request reads from outside: the two credentials of \<^verbatim>\<open>process.env\<close>, the
  network, and the clock. \<open>fetch\<close> answers a request by rejecting (a network error, or the
  abort at the timeout) or by a response with its status and, when the body parses, its
  JSON value. \<open>now_lookup\<close> is the \<^verbatim>\<open>Date.now()\<close> of the freshness test and \<open>now_store\<close>
  the one read when a snapshot is stored.
\<close>

record request =
  url :: string
  headers :: "(string \<times> string) list"
  timeout :: nat

datatype fetch_result = Rejected | Response nat "jsval option"

record env =
  OPENWEATHER_API_KEY :: "string option"
  WEATHERAPI_KEY :: "string option"
  fetch :: "request \<Rightarrow> fetch_result"
  now_lookup :: int
  now_store :: int

datatype provider = OpenWeather | WeatherAPI | WttrIn

datatype error =
    KeyNotConfigured provider
  | FetchFailed
  | ApiError provider nat
  | BodyNotJson
  | TypeError

text \<open>
  The trace of a request: every adapter the loop calls, every request sent to the network,
  every failure logged by \<^verbatim>\<open>console.warn\<close>, in order.
\<close>

datatype event = Call provider | Fetch request | Warn provider error

definition fetchWithTimeout ::
  "env \<Rightarrow> string \<Rightarrow> (string \<times> string) list \<Rightarrow> nat \<Rightarrow> fetch_result \<times> event list" where
  "fetchWithTimeout env u hs t =
     (let req = \<lparr>url = u, headers = hs, timeout = t\<rparr> in (fetch env req, [Fetch req]))"

definition ok :: "nat \<Rightarrow> bool" where
  "ok st = (200 \<le> st \<and> st \<le> 299)"

text \<open>
  The part the three adapters share after the request: a rejected fetch, a status outside
  200 to 299 and a body that is not JSON each throw.
\<close>

definition response_json :: "provider \<Rightarrow> fetch_result \<Rightarrow> error + jsval" where
  "response_json p r =
     (case r of
        Rejected \<Rightarrow> Inl FetchFailed
      | Response st body \<Rightarrow>
          if \<not> ok st then Inl (ApiError p st)
          else (case body of None \<Rightarrow> Inl BodyNotJson | Some d \<Rightarrow> Inr d))"

definition or_TypeError :: "'a option \<Rightarrow> error + 'a" where
  "or_TypeError x = (case x of None \<Rightarrow> Inl TypeError | Some y \<Rightarrow> Inr y)"

section \<open>The adapters\<close>

subsection \<open>\<^verbatim>\<open>getWeatherFromOpenWeather\<close>\<close>

definition openWeatherData :: "jsval \<Rightarrow> WeatherData option" where
  "openWeatherData d = do {
     nm \<leftarrow> get_prop ''name'' d;
     m \<leftarrow> get_prop ''main'' d;
     t \<leftarrow> get_prop ''temp'' m;
     fl \<leftarrow> get_prop ''feels_like'' m;
     h \<leftarrow> get_prop ''humidity'' m;
     tmin \<leftarrow> get_prop ''temp_min'' m;
     tmax \<leftarrow> get_prop ''temp_max'' m;
     w \<leftarrow> get_prop ''weather'' d;
     w0 \<leftarrow> idx0 w;
     wm \<leftarrow> get_prop ''main'' w0;
     wd \<leftarrow> get_prop ''description'' w0;
     wi \<leftarrow> get_prop ''icon'' w0;
     wn \<leftarrow> get_prop ''wind'' d;
     sp \<leftarrow> get_prop ''speed'' wn;
     Some \<lparr>name = nm,
           main = \<lparr>temp = Math_round (ToNumber t),
                   feels_like = Math_round (ToNumber fl),
                   humidity = h,
                   temp_min = Math_round (ToNumber tmin),
                   temp_max = Math_round (ToNumber tmax)\<rparr>,
           weather = [\<lparr>cond_main = wm, description = wd,
                       icon = Template ''https://openweathermap.org/img/wn/'' wi ''@2x.png''\<rparr>],
           wind = \<lparr>speed = num_div (Math_round (js_mul sp 10)) 10\<rparr>\<rparr>
   }"

definition getWeatherFromOpenWeather :: "env \<Rightarrow> string \<Rightarrow> (error + WeatherData) \<times> event list" where
  "getWeatherFromOpenWeather env city =
     (case OPENWEATHER_API_KEY env of
        None \<Rightarrow> (Inl (KeyNotConfigured OpenWeather), [])
      | Some API_KEY \<Rightarrow>
          if API_KEY = [] then (Inl (KeyNotConfigured OpenWeather), [])
          else
            (let u = ''https://api.openweathermap.org/data/2.5/weather?q='' @ encodeURIComponent city
                       @ ''&appid='' @ API_KEY @ ''&units=metric&lang=zh_cn'';
                 r = fetchWithTimeout env u [] 5000
             in (case response_json OpenWeather (fst r) of
                   Inl e \<Rightarrow> (Inl e, snd r)
                 | Inr d \<Rightarrow> (or_TypeError (openWeatherData d), snd r))))"

subsection \<open>\<^verbatim>\<open>getWeatherFromWeatherAPI\<close>\<close>

definition weatherAPIData :: "(real \<Rightarrow> string) \<Rightarrow> jsval \<Rightarrow> WeatherData option" where
  "weatherAPIData fmt d = do {
     loc \<leftarrow> get_prop ''location'' d;
     nm \<leftarrow> get_prop ''name'' loc;
     cur \<leftarrow> get_prop ''current'' d;
     t \<leftarrow> get_prop ''temp_c'' cur;
     fl \<leftarrow> get_prop ''feelslike_c'' cur;
     h \<leftarrow> get_prop ''humidity'' cur;
     cnd \<leftarrow> get_prop ''condition'' cur;
     tx \<leftarrow> get_prop ''text'' cnd;
     ic \<leftarrow> get_prop ''icon'' cnd;
     wk \<leftarrow> get_prop ''wind_kph'' cur;
     Some \<lparr>name = nm,
           main = \<lparr>temp = Math_round (ToNumber t),
                   feels_like = Math_round (ToNumber fl),
                   humidity = h,
                   temp_min = Math_round (js_sub t 2),
                   temp_max = Math_round (ToNumber (js_plus fmt t 2))\<rparr>,
           weather = [\<lparr>cond_main = tx, description = tx, icon = Template ''https:'' ic []\<rparr>],
           wind = \<lparr>speed = num_div (Math_round (num_mul (js_mul wk (27778 / 100000)) 10)) 10\<rparr>\<rparr>
   }"

definition getWeatherFromWeatherAPI ::
  "(real \<Rightarrow> string) \<Rightarrow> env \<Rightarrow> string \<Rightarrow> (error + WeatherData) \<times> event list" where
  "getWeatherFromWeatherAPI fmt env city =
     (case WEATHERAPI_KEY env of
        None \<Rightarrow> (Inl (KeyNotConfigured WeatherAPI), [])
      | Some API_KEY \<Rightarrow>
          if API_KEY = [] then (Inl (KeyNotConfigured WeatherAPI), [])
          else
            (let u = ''https://api.weatherapi.com/v1/current.json?key='' @ API_KEY @ ''&q=''
                       @ encodeURIComponent city @ ''&lang=zh'';
                 r = fetchWithTimeout env u [] 5000
             in (case response_json WeatherAPI (fst r) of
                   Inl e \<Rightarrow> (Inl e, snd r)
                 | Inr d \<Rightarrow> (or_TypeError (weatherAPIData fmt d), snd r))))"

subsection \<open>\<^verbatim>\<open>getWeatherFromWttrIn\<close>\<close>

definition unknown_main :: string where
  "unknown_main = [CHR 0xE6, CHR 0x9C, CHR 0xAA, CHR 0xE7, CHR 0x9F, CHR 0xA5]"

definition unknown_description :: string where
  "unknown_description = [CHR 0xE6, CHR 0x9C, CHR 0xAA, CHR 0xE7, CHR 0x9F, CHR 0xA5, CHR 0xE5, CHR 0xA4,
     CHR 0xA9, CHR 0xE6, CHR 0xB0, CHR 0x94]"

definition wttrInData :: "string \<Rightarrow> jsval \<Rightarrow> WeatherData option" where
  "wttrInData city d = do {
     cc \<leftarrow> get_prop ''current_condition'' d;
     na \<leftarrow> get_prop ''nearest_area'' d;
     wt \<leftarrow> get_prop ''weather'' d;
     let current = js_or (opt_idx0 cc) (JObj []);
     let day = opt_idx0 wt;
     let temp_C = opt_prop ''temp_C'' current;
     let desc = opt_prop ''value'' (opt_idx0 (opt_prop ''weatherDesc'' current));
     Some \<lparr>name = js_or (opt_prop ''value'' (opt_idx0 (opt_prop ''areaName'' (opt_idx0 na)))) (JStr city),
           main = \<lparr>temp = Math_round (parseFloat (js_or temp_C (JNum (Finite 0)))),
                   feels_like = Math_round (parseFloat (js_or (opt_prop ''FeelsLikeC'' current) (JNum (Finite 0)))),
                   humidity = JNum (parseFloat (js_or (opt_prop ''humidity'' current) (JNum (Finite 0)))),
                   temp_min = Math_round (parseFloat
                     (js_or (js_or (opt_prop ''mintempC'' day) temp_C) (JNum (Finite 0)))),
                   temp_max = Math_round (parseFloat
                     (js_or (js_or (opt_prop ''maxtempC'' day) temp_C) (JNum (Finite 0))))\<rparr>,
           weather = [\<lparr>cond_main = js_or desc (JStr unknown_main),
                       description = js_or desc (JStr unknown_description),
                       icon = Value (js_or (opt_prop ''value'' (opt_idx0 (opt_prop ''weatherIconUrl'' current)))
                                       (JStr []))\<rparr>],
           wind = \<lparr>speed = num_div (Math_round (num_mul (num_mul
                      (parseFloat (js_or (opt_prop ''windspeedKmph'' current) (JNum (Finite 0))))
                      (27778 / 100000)) 10)) 10\<rparr>\<rparr>
   }"

definition getWeatherFromWttrIn :: "env \<Rightarrow> string \<Rightarrow> (error + WeatherData) \<times> event list" where
  "getWeatherFromWttrIn env city =
     (let u = ''https://wttr.in/'' @ encodeURIComponent city @ ''?format=j1'';
          r = fetchWithTimeout env u
                [(''User-Agent'', ''Mozilla/5.0 (Windows NT 10.0; Win64; x64) AppleWebKit/537.36'')] 8000
      in (case response_json WttrIn (fst r) of
            Inl e \<Rightarrow> (Inl e, snd r)
          | Inr d \<Rightarrow> (or_TypeError (wttrInData city d), snd r)))"

section \<open>The lookup endpoint\<close>

text \<open>
  A response is the value handed to \<^verbatim>\<open>NextResponse.json\<close> and the status. The two error
  messages are the UTF-8 bytes of the route's texts.
\<close>

datatype body = Data WeatherData | ErrorMessage string

record response =
  status :: nat
  body :: body

definition city_empty_message :: string where
  "city_empty_message =
     [CHR 0xE5, CHR 0x9F, CHR 0x8E, CHR 0xE5, CHR 0xB8, CHR 0x82, CHR 0xE5, CHR 0x90,
     CHR 0x8D, CHR 0xE7, CHR 0xA7, CHR 0xB0, CHR 0xE4, CHR 0xB8, CHR 0x8D, CHR 0xE8,
     CHR 0x83, CHR 0xBD, CHR 0xE4, CHR 0xB8, CHR 0xBA, CHR 0xE7, CHR 0xA9, CHR 0xBA]"

definition unavailable_message :: string where
  "unavailable_message =
     [CHR 0xE6, CHR 0x89, CHR 0x80, CHR 0xE6, CHR 0x9C, CHR 0x89, CHR 0xE5, CHR 0xA4,
     CHR 0xA9, CHR 0xE6, CHR 0xB0, CHR 0x94, CHR 0xE6, CHR 0x9C, CHR 0x8D, CHR 0xE5,
     CHR 0x8A, CHR 0xA1, CHR 0xE6, CHR 0x9A, CHR 0x82, CHR 0xE6, CHR 0x97, CHR 0xB6,
     CHR 0xE4, CHR 0xB8, CHR 0x8D, CHR 0xE5, CHR 0x8F, CHR 0xAF, CHR 0xE7, CHR 0x94,
     CHR 0xA8, CHR 0xEF, CHR 0xBC, CHR 0x8C, CHR 0xE8, CHR 0xAF, CHR 0xB7, CHR 0xE7,
     CHR 0xA8, CHR 0x8D, CHR 0xE5, CHR 0x90, CHR 0x8E, CHR 0xE9, CHR 0x87, CHR 0x8D,
     CHR 0xE8, CHR 0xAF, CHR 0x95]"

definition cacheKey :: "string \<Rightarrow> string" where
  "cacheKey city = ''weather_'' @ city"

definition apis :: "(provider \<times> (env \<Rightarrow> string \<Rightarrow> (error + WeatherData) \<times> event list)) list" where
  "apis = [(OpenWeather, getWeatherFromOpenWeather), (WttrIn, getWeatherFromWttrIn)]"

text \<open>
  The loop over the adapters: the first success is stored and returned, a failure is
  logged and the loop goes on; after the last one the unavailable response is returned.
\<close>

fun try_apis ::
  "(provider \<times> (env \<Rightarrow> string \<Rightarrow> (error + WeatherData) \<times> event list)) list \<Rightarrow>
   env \<Rightarrow> string \<Rightarrow> cache \<Rightarrow> response \<times> cache \<times> event list" where
  "try_apis [] env city c = (\<lparr>status = 503, body = ErrorMessage unavailable_message\<rparr>, c, [])"
| "try_apis ((p, api) # rest) env city c =
     (case api env city of
        (Inr weatherData, tr) \<Rightarrow>
          (\<lparr>status = 200, body = Data weatherData\<rparr>,
           c(cacheKey city \<mapsto> \<lparr>data = weatherData, timestamp = now_store env\<rparr>),
           Call p # tr)
      | (Inl e, tr) \<Rightarrow>
          (case try_apis rest env city c of
             (r, c', tr') \<Rightarrow> (r, c', Call p # tr @ Warn p e # tr')))"

definition fresh :: "env \<Rightarrow> CacheData \<Rightarrow> bool" where
  "fresh env cached = (now_lookup env - timestamp cached < CACHE_DURATION)"

text \<open>
  \<open>GET env city c\<close>: \<open>city\<close> is the result of \<^verbatim>\<open>searchParams.get('city')\<close>, \<open>None\<close> when
  the parameter is missing; \<open>c\<close> is the cache before the request. The result is the
  response, the cache after the request and the trace.
\<close>

definition GET :: "env \<Rightarrow> string option \<Rightarrow> cache \<Rightarrow> response \<times> cache \<times> event list" where
  "GET env city_param c =
     (case city_param of
        None \<Rightarrow> (\<lparr>status = 400, body = ErrorMessage city_empty_message\<rparr>, c, [])
      | Some city \<Rightarrow>
          if city = [] then (\<lparr>status = 400, body = ErrorMessage city_empty_message\<rparr>, c, [])
          else
            (case c (cacheKey city) of
               Some cached \<Rightarrow>
                 if fresh env cached then (\<lparr>status = 200, body = Data (data cached)\<rparr>, c, [])
                 else try_apis apis env city c
             | None \<Rightarrow> try_apis apis env city c))"

text \<open>
  The caches a running server can hold: the empty one at start, and the cache after any
  request on a cache it can hold.
\<close>

inductive reachable :: "cache \<Rightarrow> bool" where
  start: "reachable Map.empty"
| request: "reachable c \<Longrightarrow> GET env city_param c = (r, c', tr) \<Longrightarrow> reachable c'"

section \<open>Observations on a request\<close>

text \<open>
  \<open>cache_miss\<close> is the negation of the route's test for a cache hit: no entry under the
  key, or one that is not fresh.
\<close>

definition cache_miss :: "env \<Rightarrow> cache \<Rightarrow> string \<Rightarrow> bool" where
  "cache_miss env c city =
     (case c (cacheKey city) of None \<Rightarrow> True | Some cached \<Rightarrow> \<not> fresh env cached)"


definition fetches :: "event list \<Rightarrow> request list" where
  "fetches tr = concat (map (\<lambda>ev. case ev of Fetch req \<Rightarrow> [req] | _ \<Rightarrow> []) tr)"

fun is_finite :: "jsnum \<Rightarrow> bool" where
  "is_finite (Finite q) = True"
| "is_finite n = False"

text \<open>A whole number, and a number with at most one decimal place.\<close>

fun whole :: "jsnum \<Rightarrow> bool" where
  "whole (Finite q) = (of_int \<lfloor>q\<rfloor> = q)"
| "whole n = False"





section \<open>Example environments\<close>

text \<open>
  A network on which only \<^verbatim>\<open>wttr.in\<close> answers, with a payload of the shape that service
  sends, and a server without credentials on that network.
\<close>

definition wttr_payload :: jsval where
  "wttr_payload =
     JObj [(''current_condition'',
              JArr [JObj [(''temp_C'', JStr ''21''), (''FeelsLikeC'', JStr ''20''),
                          (''humidity'', JStr ''65''), (''windspeedKmph'', JStr ''36''),
                          (''weatherDesc'', JArr [JObj [(''value'', JStr ''Sunny'')]])]]),
           (''nearest_area'', JArr [JObj [(''areaName'', JArr [JObj [(''value'', JStr ''Paris'')]])]]),
           (''weather'', JArr [JObj [(''mintempC'', JStr ''18''), (''maxtempC'', JStr ''25'')]])]"

definition wttr_network :: "request \<Rightarrow> fetch_result" where
  "wttr_network req =
     (if take 16 (url req) = ''https://wttr.in/'' then Response 200 (Some wttr_payload) else Rejected)"

definition keyless_env :: "int \<Rightarrow> int \<Rightarrow> env" where
  "keyless_env t0 t1 =
     \<lparr>OPENWEATHER_API_KEY = None, WEATHERAPI_KEY = None, fetch = wttr_network,
      now_lookup = t0, now_store = t1\<rparr>"

definition paris :: WeatherData where
  "paris =
     \<lparr>name = JStr ''Paris'',
      main = \<lparr>temp = Finite 21, feels_like = Finite 20, humidity = JNum (Finite 65),
              temp_min = Finite 18, temp_max = Finite 25\<rparr>,
      weather = [\<lparr>cond_main = JStr ''Sunny'', description = JStr ''Sunny'', icon = Value (JStr [])\<rparr>],
      wind = \<lparr>speed = Finite 10\<rparr>\<rparr>"

definition wttr_request :: "string \<Rightarrow> request" where
  "wttr_request encoded_city =
     \<lparr>url = ''https://wttr.in/'' @ encoded_city @ ''?format=j1'',
      headers = [(''User-Agent'', ''Mozilla/5.0 (Windows NT 10.0; Win64; x64) AppleWebKit/537.36'')],
      timeout = 8000\<rparr>"

text \<open>
  A server with the OpenWeather credential on a network where that service answers a
  payload \<open>d\<close> and nothing else answers.
\<close>

definition openweather_request :: "string \<Rightarrow> string \<Rightarrow> request" where
  "openweather_request encoded_city key =
     \<lparr>url = ''https://api.openweathermap.org/data/2.5/weather?q='' @ encoded_city
             @ ''&appid='' @ key @ ''&units=metric&lang=zh_cn'',
      headers = [], timeout = 5000\<rparr>"

definition openweather_network :: "jsval \<Rightarrow> request \<Rightarrow> fetch_result" where
  "openweather_network d req =
     (if take 30 (url req) = ''https://api.openweathermap.org'' then Response 200 (Some d) else Rejected)"

definition keyed_env :: "jsval \<Rightarrow> int \<Rightarrow> int \<Rightarrow> env" where
  "keyed_env d t0 t1 =
     \<lparr>OPENWEATHER_API_KEY = Some ''k1'', WEATHERAPI_KEY = None, fetch = openweather_network d,
      now_lookup = t0, now_store = t1\<rparr>"

definition openweather_payload :: "jsval \<Rightarrow> jsval" where
  "openweather_payload h =
     JObj [(''name'', JStr ''Oslo''),
           (''main'', JObj [(''temp'', JNum (Finite (-34 / 10))), (''feels_like'', JNum (Finite (-75 / 10))),
                            (''humidity'', h), (''temp_min'', JNum (Finite (-5))),
                            (''temp_max'', JNum (Finite (-12 / 10)))]),
           (''weather'', JArr [JObj [(''main'', JStr ''Snow''), (''description'', JStr ''light snow''),
                                     (''icon'', JStr ''13d'')]]),
           (''wind'', JObj [(''speed'', JNum (Finite (412 / 100)))])]"

definition oslo :: "jsval \<Rightarrow> WeatherData" where
  "oslo h =
     \<lparr>name = JStr ''Oslo'',
      main = \<lparr>temp = Finite (-3), feels_like = Finite (-7), humidity = h,
              temp_min = Finite (-5), temp_max = Finite (-1)\<rparr>,
      weather = [\<lparr>cond_main = JStr ''Snow'', description = JStr ''light snow'',
                  icon = Template ''https://openweathermap.org/img/wn/'' (JStr ''13d'') ''@2x.png''\<rparr>],
      wind = \<lparr>speed = Finite (41 / 10)\<rparr>\<rparr>"







text \<open>A server without credentials on a network where nothing answers.\<close>

definition no_network :: "request \<Rightarrow> fetch_result" where
  "no_network req = Rejected"

definition offline_env :: "int \<Rightarrow> int \<Rightarrow> env" where
  "offline_env t0 t1 =
     \<lparr>OPENWEATHER_API_KEY = None, WEATHERAPI_KEY = None, fetch = no_network,
      now_lookup = t0, now_store = t1\<rparr>"





definition no_fmt :: "real \<Rightarrow> string" where
  "no_fmt q = []"


section \<open>Properties of the fallback loop and the cache\<close>

lemma cacheKey_inj: "(cacheKey a = cacheKey b) = (a = b)"
  by (simp add: cacheKey_def)

lemma GET_nonempty:
  "city \<noteq> [] \<Longrightarrow>
   GET env (Some city) c =
     (if cache_miss env c city then try_apis apis env city c
      else (\<lparr>status = 200, body = Data (data (the (c (cacheKey city))))\<rparr>, c, []))"
  by (simp add: GET_def cache_miss_def split: option.splits)

lemma try_apis_all_fail:
  "\<forall>(p, api) \<in> set as. \<exists>e tr. api env city = (Inl e, tr) \<Longrightarrow>
   fst (try_apis as env city c) = \<lparr>status = 503, body = ErrorMessage unavailable_message\<rparr>
   \<and> fst (snd (try_apis as env city c)) = c"
proof (induction as)
  case Nil
  show ?case by simp
next
  case (Cons a as)
  obtain p api where a: "a = (p, api)" by (cases a)
  from Cons.prems a obtain e tr where f: "api env city = (Inl e, tr)" by auto
  from Cons.prems have "\<forall>(p, api) \<in> set as. \<exists>e tr. api env city = (Inl e, tr)" by simp
  from Cons.IH [OF this] show ?case
    by (auto simp: a f split: prod.splits)
qed


lemma fetches_simps:
  "fetches [] = []" "fetches (Call p # tr) = fetches tr" "fetches (Fetch req # tr) = req # fetches tr"
  "fetches (Warn p e # tr) = fetches tr" "fetches (tr @ tr') = fetches tr @ fetches tr'"
  by (simp_all add: fetches_def)


lemma try_apis_first_success:
  "\<forall>(p, api) \<in> set pre. \<exists>e tr. api env city = (Inl e, tr) \<Longrightarrow>
   api env city = (Inr w, tr) \<Longrightarrow>
   fst (try_apis (pre @ (p, api) # rest) env city c) = \<lparr>status = 200, body = Data w\<rparr>
   \<and> fst (snd (try_apis (pre @ (p, api) # rest) env city c))
       = c(cacheKey city \<mapsto> \<lparr>data = w, timestamp = now_store env\<rparr>)
   \<and> (\<exists>before. snd (snd (try_apis (pre @ (p, api) # rest) env city c)) = before @ Call p # tr)"
proof (induction pre)
  case Nil
  then show ?case by simp
next
  case (Cons a pre)
  obtain q f where a: "a = (q, f)" by (cases a)
  from Cons.prems a obtain e tr' where f: "f env city = (Inl e, tr')" by auto
  from Cons.prems have "\<forall>(p, api) \<in> set pre. \<exists>e tr. api env city = (Inl e, tr)" by simp
  from Cons.IH [OF this Cons.prems(2)] obtain before where
    "fst (try_apis (pre @ (p, api) # rest) env city c) = \<lparr>status = 200, body = Data w\<rparr>"
    "fst (snd (try_apis (pre @ (p, api) # rest) env city c))
       = c(cacheKey city \<mapsto> \<lparr>data = w, timestamp = now_store env\<rparr>)"
    "snd (snd (try_apis (pre @ (p, api) # rest) env city c)) = before @ Call p # tr"
    by blast
  then show ?case
    by (auto simp: a f split: prod.splits intro: exI [of _ "Call q # tr' @ Warn q e # before"])
qed

lemma try_apis_two:
  "try_apis apis env city c =
     (case getWeatherFromOpenWeather env city of
        (Inr w, tr1) \<Rightarrow>
          (\<lparr>status = 200, body = Data w\<rparr>,
           c(cacheKey city \<mapsto> \<lparr>data = w, timestamp = now_store env\<rparr>), Call OpenWeather # tr1)
      | (Inl e1, tr1) \<Rightarrow>
          (case getWeatherFromWttrIn env city of
             (Inr w, tr2) \<Rightarrow>
               (\<lparr>status = 200, body = Data w\<rparr>,
                c(cacheKey city \<mapsto> \<lparr>data = w, timestamp = now_store env\<rparr>),
                Call OpenWeather # tr1 @ Warn OpenWeather e1 # Call WttrIn # tr2)
           | (Inl e2, tr2) \<Rightarrow>
               (\<lparr>status = 503, body = ErrorMessage unavailable_message\<rparr>, c,
                Call OpenWeather # tr1 @ Warn OpenWeather e1 # Call WttrIn # tr2 @ [Warn WttrIn e2])))"
  by (simp add: apis_def split: prod.splits sum.splits)

lemma wttr_trace:
  "snd (getWeatherFromWttrIn env city) = [Fetch (wttr_request (encodeURIComponent city))]"
  by (simp add: getWeatherFromWttrIn_def fetchWithTimeout_def wttr_request_def Let_def split: sum.splits)

lemma openweather_trace:
  "snd (getWeatherFromOpenWeather env city) =
     (case OPENWEATHER_API_KEY env of None \<Rightarrow> []
      | Some k \<Rightarrow> if k = [] then [] else [Fetch (openweather_request (encodeURIComponent city) k)])"
  by (simp add: getWeatherFromOpenWeather_def fetchWithTimeout_def openweather_request_def Let_def
      split: sum.splits option.splits)

lemma try_apis_status: "status (fst (try_apis as env city c)) \<in> {200, 503}"
  by (induction as) (auto split: prod.splits sum.splits)

lemma GET_step:
  "GET env city_param c = (r, c', tr) \<Longrightarrow>
   c' = c \<or> (\<exists>city w. city \<noteq> [] \<and> c' = c(cacheKey city \<mapsto> w))"
  by (auto simp: GET_def try_apis_two split: option.splits if_splits prod.splits sum.splits)

lemma reachable_no_empty_key: "reachable c \<Longrightarrow> c (cacheKey []) = None"
proof (induction rule: reachable.induct)
  case start
  show ?case by simp
next
  case (request c env city_param r c' tr)
  from GET_step [OF request.hyps(2)] request.IH show ?case
    by (auto simp: cacheKey_inj)
qed

lemma wttr_paris: "wttrInData city wttr_payload = Some paris"
  by code_simp

lemma keyless_lookup:
  "city \<noteq> [] \<Longrightarrow> cache_miss (keyless_env t0 t1) c city \<Longrightarrow>
   GET (keyless_env t0 t1) (Some city) c =
     (\<lparr>status = 200, body = Data paris\<rparr>, c(cacheKey city \<mapsto> \<lparr>data = paris, timestamp = t1\<rparr>),
      [Call OpenWeather, Warn OpenWeather (KeyNotConfigured OpenWeather), Call WttrIn,
       Fetch (wttr_request (encodeURIComponent city))])"
  by (simp add: GET_nonempty try_apis_two getWeatherFromOpenWeather_def getWeatherFromWttrIn_def
      keyless_env_def fetchWithTimeout_def response_json_def wttr_network_def ok_def or_TypeError_def
      wttr_paris wttr_request_def)

lemma openweather_without_key:
  "OPENWEATHER_API_KEY env = None \<or> OPENWEATHER_API_KEY env = Some [] \<Longrightarrow>
   getWeatherFromOpenWeather env city = (Inl (KeyNotConfigured OpenWeather), [])"
  by (auto simp: getWeatherFromOpenWeather_def)

lemma weatherapi_without_key:
  "WEATHERAPI_KEY env = None \<or> WEATHERAPI_KEY env = Some [] \<Longrightarrow>
   getWeatherFromWeatherAPI fmt env city = (Inl (KeyNotConfigured WeatherAPI), [])"
  by (auto simp: getWeatherFromWeatherAPI_def)

lemma chain_fetches:
  "fetches (snd (snd (try_apis apis env city c))) \<noteq> []"
proof (cases "getWeatherFromOpenWeather env city")
  case (Pair r1 tr1)
  obtain r2 tr2 where w: "getWeatherFromWttrIn env city = (r2, tr2)" by (cases "getWeatherFromWttrIn env city")
  with wttr_trace [of env city] have tr2: "fetches tr2 \<noteq> []" by (simp add: fetches_simps)
  show ?thesis
  proof (cases r1)
    case (Inl e1)
    with Pair w tr2 show ?thesis
      by (cases r2) (simp_all add: try_apis_two fetches_simps)
  next
    case (Inr w1)
    with Pair openweather_without_key [of env city] openweather_trace [of env city]
    have "fetches tr1 \<noteq> []"
      by (auto simp: fetches_simps split: option.splits if_splits)
    with Pair Inr show ?thesis by (simp add: try_apis_two fetches_simps)
  qed
qed

lemma chain_first_call:
  "\<exists>tr. snd (snd (try_apis apis env city c)) = Call OpenWeather # tr"
  by (auto simp: try_apis_two split: prod.splits sum.splits)

lemma oslo_data: "openWeatherData (openweather_payload h) = Some (oslo h)"
  by (simp add: openWeatherData_def openweather_payload_def oslo_def lookup_own_def js_mul_def)

lemma keyed_adapter:
  "openWeatherData d = Some w \<Longrightarrow>
   getWeatherFromOpenWeather (keyed_env d t0 t1) city =
     (Inr w, [Fetch (openweather_request (encodeURIComponent city) ''k1'')])"
  by (simp add: getWeatherFromOpenWeather_def keyed_env_def fetchWithTimeout_def response_json_def
      openweather_network_def ok_def or_TypeError_def openweather_request_def)

lemma keyless_adapters:
  "getWeatherFromOpenWeather (keyless_env t0 t1) city = (Inl (KeyNotConfigured OpenWeather), [])"
  "getWeatherFromWttrIn (keyless_env t0 t1) city = (Inr paris, [Fetch (wttr_request (encodeURIComponent city))])"
  by (simp_all add: getWeatherFromOpenWeather_def getWeatherFromWttrIn_def
      keyless_env_def fetchWithTimeout_def response_json_def wttr_network_def ok_def or_TypeError_def
      wttr_paris wttr_request_def)

lemma offline_adapters:
  "getWeatherFromOpenWeather (offline_env t0 t1) city = (Inl (KeyNotConfigured OpenWeather), [])"
  "getWeatherFromWttrIn (offline_env t0 t1) city = (Inl FetchFailed, [Fetch (wttr_request (encodeURIComponent city))])"
  by (simp_all add: getWeatherFromOpenWeather_def getWeatherFromWttrIn_def
      offline_env_def fetchWithTimeout_def response_json_def no_network_def wttr_request_def)

lemma enc_Paris: "encodeURIComponent ''Paris'' = ''Paris''"
  by code_simp

lemma adapters_ignore_weatherapi_key:
  "getWeatherFromOpenWeather (env\<lparr>WEATHERAPI_KEY := k\<rparr>) city = getWeatherFromOpenWeather env city"
  "getWeatherFromWttrIn (env\<lparr>WEATHERAPI_KEY := k\<rparr>) city = getWeatherFromWttrIn env city"
  by (simp_all add: getWeatherFromOpenWeather_def getWeatherFromWttrIn_def fetchWithTimeout_def Let_def
      split: option.splits)

lemma chain_ignores_weatherapi_key:
  "try_apis apis (env\<lparr>WEATHERAPI_KEY := k\<rparr>) city c = try_apis apis env city c"
  by (simp add: apis_def adapters_ignore_weatherapi_key split: prod.splits sum.splits)

lemma GET_ignores_weatherapi_key:
  "GET (env\<lparr>WEATHERAPI_KEY := k\<rparr>) city_param c = GET env city_param c"
  by (simp add: GET_def chain_ignores_weatherapi_key fresh_def split: option.splits)



lemma whole_Math_round: "whole (Math_round n) = is_finite n"
  by (cases n) simp_all
























section \<open>The claims\<close>

text \<open>
  Claim C1, as the route has it. A request whose \<^verbatim>\<open>city\<close> parameter is missing or the
  empty string is answered at once with status 400 and the route's message: no adapter is
  called, nothing is sent to the network and the cache is unchanged. These are the only
  requests answered with 400. The route does not trim: a city of white space only is
  looked up like any other city.
\<close>

theorem GET_rejects_missing_or_empty_city:
  "GET env None c = (\<lparr>status = 400, body = ErrorMessage city_empty_message\<rparr>, c, [])
   \<and> GET env (Some []) c = (\<lparr>status = 400, body = ErrorMessage city_empty_message\<rparr>, c, [])
   \<and> (status (fst (GET env city_param c)) = 400) = (city_param = None \<or> city_param = Some [])"
proof -
  have "status (fst (GET env (Some city) c)) \<noteq> 400" if "city \<noteq> []" for city
    using that try_apis_status [of apis env city c]
    by (auto simp: GET_def split: option.splits)
  then show ?thesis
    by (cases city_param) (auto simp: GET_def)
qed

text \<open>
  Claim C1 as stated fails for a city of white space only. The city \<^verbatim>\<open>" "\<close> is all
  white space, yet on a server without credentials the request calls both adapters of the
  chain, sends a request to \<^verbatim>\<open>wttr.in\<close>, stores the snapshot and answers 200.
\<close>

theorem whitespace_city_counterexample:
  "dropWs '' '' = []
   \<and> GET (keyless_env 0 0) (Some '' '') Map.empty =
       (\<lparr>status = 200, body = Data paris\<rparr>,
        [cacheKey '' '' \<mapsto> \<lparr>data = paris, timestamp = 0\<rparr>],
        [Call OpenWeather, Warn OpenWeather (KeyNotConfigured OpenWeather), Call WttrIn,
         Fetch (wttr_request ''%20'')])"
proof -
  have ws: "dropWs '' '' = []" by code_simp
  have enc: "encodeURIComponent '' '' = ''%20''" by code_simp
  have "cache_miss (keyless_env 0 0) Map.empty '' ''" by (simp add: cache_miss_def)
  from keyless_lookup [OF _ this] ws enc show ?thesis by simp
qed

text \<open>
  Claim C2. On a cache a server can hold, when the entry of a city exists and the time
  since its timestamp is below five minutes, the lookup answers 200 with exactly the
  cached snapshot, the cache is unchanged and the trace is empty: no adapter is called and
  nothing is sent to the network. The city ranges over every string: a reachable cache
  holds no entry for the empty city.
\<close>

theorem cache_hit_no_provider:
  assumes "reachable c" and "c (cacheKey city) = Some cached"
    and "now_lookup env - timestamp cached < 5 * 60 * 1000"
  shows "GET env (Some city) c = (\<lparr>status = 200, body = Data (data cached)\<rparr>, c, [])"
proof -
  from assms(1,2) have "city \<noteq> []" using reachable_no_empty_key by fastforce
  with assms(2,3) show ?thesis
    by (simp add: GET_def fresh_def CACHE_DURATION_def)
qed

text \<open>
  The cache left by a first lookup of Paris at time 0, and a second lookup 299999 ms
  later.
\<close>

theorem cache_hit_no_provider_witness:
  "GET (keyless_env 299999 299999) (Some ''Paris'') [cacheKey ''Paris'' \<mapsto> \<lparr>data = paris, timestamp = 0\<rparr>]
     = (\<lparr>status = 200, body = Data paris\<rparr>, [cacheKey ''Paris'' \<mapsto> \<lparr>data = paris, timestamp = 0\<rparr>], [])"
proof -
  have "GET (keyless_env 0 0) (Some ''Paris'') Map.empty =
      (\<lparr>status = 200, body = Data paris\<rparr>, [cacheKey ''Paris'' \<mapsto> \<lparr>data = paris, timestamp = 0\<rparr>],
       [Call OpenWeather, Warn OpenWeather (KeyNotConfigured OpenWeather), Call WttrIn,
         Fetch (wttr_request (encodeURIComponent ''Paris''))])"
    by (rule keyless_lookup) (simp_all add: cache_miss_def)
  from reachable.request [OF reachable.start this]
  have r: "reachable [cacheKey ''Paris'' \<mapsto> \<lparr>data = paris, timestamp = 0\<rparr>]" .
  show ?thesis
    using cache_hit_no_provider [OF r, of "''Paris''" "\<lparr>data = paris, timestamp = 0\<rparr>"
        "keyless_env 299999 299999"]
    by (simp add: keyless_env_def)
qed

text \<open>
  Claim C3 as stated fails at exactly five minutes. With an entry stored at time 0 and a
  lookup at time 300000, the entry is not served: both adapters of the chain are called,
  a request goes to \<^verbatim>\<open>wttr.in\<close> and the entry is overwritten.
\<close>

theorem five_minutes_counterexample:
  "now_lookup (keyless_env 300000 300000) - timestamp \<lparr>data = paris, timestamp = 0\<rparr> = 5 * 60 * 1000
   \<and> GET (keyless_env 300000 300000) (Some ''Paris'') [cacheKey ''Paris'' \<mapsto> \<lparr>data = paris, timestamp = 0\<rparr>] =
       (\<lparr>status = 200, body = Data paris\<rparr>,
        [cacheKey ''Paris'' \<mapsto> \<lparr>data = paris, timestamp = 300000\<rparr>],
        [Call OpenWeather, Warn OpenWeather (KeyNotConfigured OpenWeather), Call WttrIn,
         Fetch (wttr_request ''Paris'')])"
proof -
  have enc: "encodeURIComponent ''Paris'' = ''Paris''" by code_simp
  have "cache_miss (keyless_env 300000 300000) [cacheKey ''Paris'' \<mapsto> \<lparr>data = paris, timestamp = 0\<rparr>] ''Paris''"
    by (simp add: cache_miss_def fresh_def CACHE_DURATION_def keyless_env_def)
  from keyless_lookup [OF _ this] enc show ?thesis by (simp add: keyless_env_def)
qed

text \<open>
  Claim C3, as the route has it: the test is \<^verbatim>\<open>Date.now() - timestamp < CACHE_DURATION\<close>,
  so an entry is served while the time since its timestamp is below five minutes, and
  ignored from exactly five minutes on. When it is ignored the lookup calls the first
  adapter of the chain and sends at least one request to the network.
\<close>

theorem cache_entry_staleness:
  assumes "city \<noteq> []" and "c (cacheKey city) = Some cached"
  shows "(now_lookup env - timestamp cached < 5 * 60 * 1000 \<longrightarrow>
            GET env (Some city) c = (\<lparr>status = 200, body = Data (data cached)\<rparr>, c, []))
       \<and> (5 * 60 * 1000 \<le> now_lookup env - timestamp cached \<longrightarrow>
            (\<exists>tr. snd (snd (GET env (Some city) c)) = Call OpenWeather # tr)
            \<and> fetches (snd (snd (GET env (Some city) c))) \<noteq> [])"
  using assms chain_fetches [of env city c] chain_first_call [of env city c]
  by (auto simp: GET_def fresh_def CACHE_DURATION_def)

text \<open>
  An entry stored at time 0: a lookup at 299999 ms is served from the cache, a lookup at
  five minutes and 1 ms calls the providers.
\<close>

theorem cache_entry_staleness_witness:
  "GET (keyless_env 299999 299999) (Some ''Paris'') [cacheKey ''Paris'' \<mapsto> \<lparr>data = paris, timestamp = 0\<rparr>]
     = (\<lparr>status = 200, body = Data paris\<rparr>, [cacheKey ''Paris'' \<mapsto> \<lparr>data = paris, timestamp = 0\<rparr>], [])
   \<and> (\<exists>tr. snd (snd (GET (keyless_env 300001 300001) (Some ''Paris'')
               [cacheKey ''Paris'' \<mapsto> \<lparr>data = paris, timestamp = 0\<rparr>])) = Call OpenWeather # tr)
   \<and> fetches (snd (snd (GET (keyless_env 300001 300001) (Some ''Paris'')
               [cacheKey ''Paris'' \<mapsto> \<lparr>data = paris, timestamp = 0\<rparr>]))) \<noteq> []"
  using cache_entry_staleness [of "''Paris''" "[cacheKey ''Paris'' \<mapsto> \<lparr>data = paris, timestamp = 0\<rparr>]"
      "\<lparr>data = paris, timestamp = 0\<rparr>" "keyless_env 299999 299999"]
    cache_entry_staleness [of "''Paris''" "[cacheKey ''Paris'' \<mapsto> \<lparr>data = paris, timestamp = 0\<rparr>]"
      "\<lparr>data = paris, timestamp = 0\<rparr>" "keyless_env 300001 300001"]
  by (simp add: keyless_env_def)

text \<open>
  Claim C4. For a non-empty city with no fresh entry: when the first adapter fails with
  any error and the second succeeds, the lookup answers 200 with the second adapter's
  snapshot and the entry of the city becomes that snapshot, stamped with the time of the
  store, whatever entry was there before; the first adapter's failure is logged. When the
  first adapter succeeds the loop stops there: its snapshot is stored and returned, and
  the trace ends with the first adapter's own events, so the second is never called.
\<close>

theorem fallback_to_second_adapter:
  assumes "city \<noteq> []" and "cache_miss env c city"
  shows "(getWeatherFromOpenWeather env city = (Inl e, tr1) \<and> getWeatherFromWttrIn env city = (Inr w, tr2) \<longrightarrow>
            GET env (Some city) c =
              (\<lparr>status = 200, body = Data w\<rparr>,
               c(cacheKey city \<mapsto> \<lparr>data = w, timestamp = now_store env\<rparr>),
               Call OpenWeather # tr1 @ Warn OpenWeather e # Call WttrIn # tr2))
       \<and> (getWeatherFromOpenWeather env city = (Inr w, tr1) \<longrightarrow>
            GET env (Some city) c =
              (\<lparr>status = 200, body = Data w\<rparr>,
               c(cacheKey city \<mapsto> \<lparr>data = w, timestamp = now_store env\<rparr>),
               Call OpenWeather # tr1))"
  using assms by (simp add: GET_nonempty try_apis_two)

text \<open>
  A server without the OpenWeather credential, with a stale entry for Paris: the snapshot
  of \<^verbatim>\<open>wttr.in\<close> replaces it. A server with the credential: OpenWeather answers and
  \<^verbatim>\<open>wttr.in\<close> is not called.
\<close>

theorem fallback_to_second_adapter_witness:
  "GET (keyless_env 400000 400007) (Some ''Paris'') [cacheKey ''Paris'' \<mapsto> \<lparr>data = oslo JNull, timestamp = 0\<rparr>] =
     (\<lparr>status = 200, body = Data paris\<rparr>,
      [cacheKey ''Paris'' \<mapsto> \<lparr>data = paris, timestamp = 400007\<rparr>],
      [Call OpenWeather, Warn OpenWeather (KeyNotConfigured OpenWeather), Call WttrIn,
       Fetch (wttr_request ''Paris'')])
   \<and> GET (keyed_env (openweather_payload (JNum (Finite 80))) 5 9) (Some ''Paris'') Map.empty =
     (\<lparr>status = 200, body = Data (oslo (JNum (Finite 80)))\<rparr>,
      [cacheKey ''Paris'' \<mapsto> \<lparr>data = oslo (JNum (Finite 80)), timestamp = 9\<rparr>],
      [Call OpenWeather, Fetch (openweather_request ''Paris'' ''k1'')])"
proof -
  have ne: "''Paris'' \<noteq> []" by simp
  have m1: "cache_miss (keyless_env 400000 400007) [cacheKey ''Paris'' \<mapsto> \<lparr>data = oslo JNull, timestamp = 0\<rparr>] ''Paris''"
    by (simp add: cache_miss_def fresh_def CACHE_DURATION_def keyless_env_def)
  have m2: "cache_miss (keyed_env (openweather_payload (JNum (Finite 80))) 5 9) Map.empty ''Paris''"
    by (simp add: cache_miss_def)
  have a: "GET (keyless_env 400000 400007) (Some ''Paris'') [cacheKey ''Paris'' \<mapsto> \<lparr>data = oslo JNull, timestamp = 0\<rparr>] =
     (\<lparr>status = 200, body = Data paris\<rparr>,
      [cacheKey ''Paris'' \<mapsto> \<lparr>data = paris, timestamp = 400007\<rparr>],
      [Call OpenWeather, Warn OpenWeather (KeyNotConfigured OpenWeather), Call WttrIn,
       Fetch (wttr_request ''Paris'')])"
    using fallback_to_second_adapter [OF ne m1, of "KeyNotConfigured OpenWeather" "[]" paris
        "[Fetch (wttr_request ''Paris'')]"]
      keyless_adapters [of 400000 400007 "''Paris''"]
    by (simp add: enc_Paris keyless_env_def)
  have b: "GET (keyed_env (openweather_payload (JNum (Finite 80))) 5 9) (Some ''Paris'') Map.empty =
     (\<lparr>status = 200, body = Data (oslo (JNum (Finite 80)))\<rparr>,
      [cacheKey ''Paris'' \<mapsto> \<lparr>data = oslo (JNum (Finite 80)), timestamp = 9\<rparr>],
      [Call OpenWeather, Fetch (openweather_request ''Paris'' ''k1'')])"
    using fallback_to_second_adapter [OF ne m2, of FetchFailed "[Fetch (openweather_request ''Paris'' ''k1'')]"
        "oslo (JNum (Finite 80))" "[]"]
      keyed_adapter [OF oslo_data, of "JNum (Finite 80)" 5 9 "''Paris''"]
    by (simp add: enc_Paris keyed_env_def)
  from a b show ?thesis by simp
qed

text \<open>
  Claim C5. For a non-empty city, when both adapters of the chain fail, the cache after
  the lookup is the cache before it; and when the lookup reaches the chain (no fresh
  entry) the response is the one unavailable response, status 503 with a fixed message:
  the adapters' errors appear in the log only.
\<close>

theorem all_adapters_fail:
  assumes "city \<noteq> []"
    and "getWeatherFromOpenWeather env city = (Inl e1, tr1)"
    and "getWeatherFromWttrIn env city = (Inl e2, tr2)"
  shows "fst (snd (GET env (Some city) c)) = c
       \<and> (cache_miss env c city \<longrightarrow>
            GET env (Some city) c =
              (\<lparr>status = 503, body = ErrorMessage unavailable_message\<rparr>, c,
               Call OpenWeather # tr1 @ Warn OpenWeather e1 # Call WttrIn # tr2 @ [Warn WttrIn e2]))"
  using assms by (simp add: GET_nonempty try_apis_two)

text \<open>
  A server without credentials and without network, holding a stale entry for Paris.
\<close>

theorem all_adapters_fail_witness:
  "fst (snd (GET (offline_env 400000 400007) (Some ''Paris'') [cacheKey ''Paris'' \<mapsto> \<lparr>data = paris, timestamp = 0\<rparr>]))
     = [cacheKey ''Paris'' \<mapsto> \<lparr>data = paris, timestamp = 0\<rparr>]
   \<and> GET (offline_env 400000 400007) (Some ''Paris'') [cacheKey ''Paris'' \<mapsto> \<lparr>data = paris, timestamp = 0\<rparr>] =
       (\<lparr>status = 503, body = ErrorMessage unavailable_message\<rparr>,
        [cacheKey ''Paris'' \<mapsto> \<lparr>data = paris, timestamp = 0\<rparr>],
        [Call OpenWeather, Warn OpenWeather (KeyNotConfigured OpenWeather), Call WttrIn,
         Fetch (wttr_request ''Paris''), Warn WttrIn FetchFailed])"
proof -
  have m: "cache_miss (offline_env 400000 400007) [cacheKey ''Paris'' \<mapsto> \<lparr>data = paris, timestamp = 0\<rparr>] ''Paris''"
    by (simp add: cache_miss_def fresh_def CACHE_DURATION_def offline_env_def)
  show ?thesis
    using all_adapters_fail [OF _ offline_adapters, of "''Paris''" 400000 400007
        "[cacheKey ''Paris'' \<mapsto> \<lparr>data = paris, timestamp = 0\<rparr>]"] m
    by (simp add: enc_Paris)
qed

text \<open>
  Claim C7. A keyed adapter whose credential is missing (or the empty string, which the
  guard \<^verbatim>\<open>!API_KEY\<close> treats alike) fails with its configuration error before any
  request: its trace is empty. In the loop, a missing OpenWeather credential only moves
  the lookup on to \<^verbatim>\<open>wttr.in\<close>, whose result decides the response; and removing the
  WeatherAPI credential changes no request at all.
\<close>

theorem missing_credential_disables_adapter:
  "(OPENWEATHER_API_KEY env = None \<or> OPENWEATHER_API_KEY env = Some [] \<longrightarrow>
      getWeatherFromOpenWeather env city = (Inl (KeyNotConfigured OpenWeather), []))
   \<and> (WEATHERAPI_KEY env = None \<or> WEATHERAPI_KEY env = Some [] \<longrightarrow>
      getWeatherFromWeatherAPI fmt env city = (Inl (KeyNotConfigured WeatherAPI), []))
   \<and> ((OPENWEATHER_API_KEY env = None \<or> OPENWEATHER_API_KEY env = Some []) \<and> city \<noteq> []
        \<and> cache_miss env c city \<longrightarrow>
      GET env (Some city) c =
        (case getWeatherFromWttrIn env city of
           (Inr w, tr) \<Rightarrow>
             (\<lparr>status = 200, body = Data w\<rparr>,
              c(cacheKey city \<mapsto> \<lparr>data = w, timestamp = now_store env\<rparr>),
              Call OpenWeather # Warn OpenWeather (KeyNotConfigured OpenWeather) # Call WttrIn # tr)
         | (Inl e, tr) \<Rightarrow>
             (\<lparr>status = 503, body = ErrorMessage unavailable_message\<rparr>, c,
              Call OpenWeather # Warn OpenWeather (KeyNotConfigured OpenWeather) # Call WttrIn # tr
                @ [Warn WttrIn e])))
   \<and> GET (env\<lparr>WEATHERAPI_KEY := None\<rparr>) city_param c = GET env city_param c"
  using openweather_without_key [of env city] weatherapi_without_key [of env fmt city]
  by (auto simp: GET_nonempty try_apis_two GET_ignores_weatherapi_key split: prod.splits sum.splits)

text \<open>
  A server without credentials: both keyed adapters fail without a request, and the
  lookup answers from \<^verbatim>\<open>wttr.in\<close>, or with 503 when the network is down.
\<close>

theorem missing_credential_disables_adapter_witness:
  "getWeatherFromOpenWeather (keyless_env 0 3) ''Paris'' = (Inl (KeyNotConfigured OpenWeather), [])
   \<and> getWeatherFromWeatherAPI no_fmt (keyless_env 0 3) ''Paris'' = (Inl (KeyNotConfigured WeatherAPI), [])
   \<and> GET (keyless_env 0 3) (Some ''Paris'') Map.empty =
       (\<lparr>status = 200, body = Data paris\<rparr>,
        [cacheKey ''Paris'' \<mapsto> \<lparr>data = paris, timestamp = 3\<rparr>],
        [Call OpenWeather, Warn OpenWeather (KeyNotConfigured OpenWeather), Call WttrIn,
         Fetch (wttr_request ''Paris'')])
   \<and> GET (offline_env 0 3) (Some ''Paris'') Map.empty =
       (\<lparr>status = 503, body = ErrorMessage unavailable_message\<rparr>, Map.empty,
        [Call OpenWeather, Warn OpenWeather (KeyNotConfigured OpenWeather), Call WttrIn,
         Fetch (wttr_request ''Paris''), Warn WttrIn FetchFailed])"
  using missing_credential_disables_adapter [of "keyless_env 0 3" "''Paris''" no_fmt Map.empty]
    missing_credential_disables_adapter [of "offline_env 0 3" "''Paris''" no_fmt Map.empty]
    keyless_adapters(2) [of 0 3 "''Paris''"] offline_adapters(2) [of 0 3 "''Paris''"]
  by (simp add: keyless_env_def offline_env_def cache_miss_def enc_Paris)










end
